theory Spec2Isabelle
  imports Main "HOL-Library.List_Lexorder" "HOL-Library.Char_ord"
begin

section \<open>The data of \<^verbatim>\<open>src/index.js\<close>\<close>

text \<open>
  JavaScript strings are modelled as \<^typ>\<open>string\<close>: a list of code units (those
  below 256, the values of \<^typ>\<open>char\<close>), compared unit by unit. With \<^theory_text>\<open>List_Lexorder\<close> and \<^theory_text>\<open>Char_ord\<close> the order \<open>\<le>\<close> on
  \<^typ>\<open>string\<close> is the lexicographic order by code unit, a proper prefix being smaller:
  the order of the default comparison of \<^verbatim>\<open>Array.prototype.sort\<close> on strings.

  An exception is a value of \<open>js_error\<close>; a function that may throw returns
  \<open>js_error + 'a\<close>, with \<open>Inl\<close> the exception.
\<close>

datatype js_error =
    AssertionError string
  | TypeError
  | Thrown string

text \<open>
  A \<^verbatim>\<open>RegExp\<close> object, as \<^verbatim>\<open>regex.test(file)\<close> reads and writes it. \<open>matchAt S i\<close> is
  the matcher of the pattern run on the string \<open>S\<close> at the index \<open>i\<close>: the end of the
  match that starts there, or \<open>None\<close>. \<open>global\<close> and \<open>sticky\<close> are the flags \<^verbatim>\<open>g\<close> and
  \<^verbatim>\<open>y\<close>, and \<open>lastIndex\<close> is the property of that name, which \<^verbatim>\<open>test\<close> keeps
  between calls for a pattern with one of the two flags.
\<close>

record regexp =
  matchAt :: "string \<Rightarrow> nat \<Rightarrow> nat option"
  global :: bool
  sticky :: bool
  lastIndex :: nat

record chunk =
  chunkId :: string
  files :: "string list"

text \<open>The value of the option \<^verbatim>\<open>as\<close>, which \<^verbatim>\<open>addLinks\<close> hands on unread.\<close>

datatype as_option =
    AsUndefined
  | AsString string
  | AsFunction "string \<Rightarrow> string option"

text \<open>A hook of the host: the names tapped on it, in the order of registration.\<close>

record hook =
  taps :: "string list"

text \<open>
  The compilation. \<open>publicPath\<close> is \<^verbatim>\<open>compilation.outputOptions.publicPath\<close>
  (\<open>None\<close> is \<^verbatim>\<open>undefined\<close>), \<open>errors\<close> is \<^verbatim>\<open>compilation.errors\<close>,
  \<open>plugins\<close> holds the event names given to \<^verbatim>\<open>compilation.plugin\<close>, and
  \<open>htmlWebpackPluginAfterHtmlProcessing\<close> is the property of that name of
  \<^verbatim>\<open>compilation.hooks\<close>. \<open>chunks\<close> and \<open>chunkGroups\<close> are read by the
  functions of \<^verbatim>\<open>lib/\<close> only.
\<close>

record compilation =
  chunks :: "chunk list"
  chunkGroups :: "chunk list list"
  publicPath :: "string option"
  errors :: "string list"
  plugins :: "string list"
  htmlWebpackPluginAfterHtmlProcessing :: "hook option"

text \<open>
  \<^verbatim>\<open>this.options\<close>. \<open>None\<close> is an option that is not set. A pattern in
  \<^verbatim>\<open>fileWhitelist\<close> or \<^verbatim>\<open>fileBlacklist\<close> is a reference to a \<^verbatim>\<open>RegExp\<close> object, and
  \<open>regexps\<close> is the store: the object behind each reference, in the state it has when
  \<^verbatim>\<open>addLinks\<close> is called. One object may so stand twice in a list, or in both lists. The option
  \<^verbatim>\<open>HtmlWebpackPlugin\<close> is used through
  \<^verbatim>\<open>HtmlWebpackPlugin.getHooks(compilation).beforeEmit\<close> only, which is what the field
  holds: the call may throw, and the property may be undefined.
\<close>

record options =
  rel :: string
  optionsInclude :: string
  optionsAs :: as_option
  fileWhitelist :: "nat list option"
  fileBlacklist :: "nat list option"
  regexps :: "nat \<Rightarrow> regexp"
  excludeHtmlNames :: "string list"
  HtmlWebpackPlugin :: "(compilation \<Rightarrow> js_error + hook option) option"

text \<open>
  The payload of the document. \<open>filename\<close> is
  \<^verbatim>\<open>htmlPluginData.plugin.options.filename\<close>; \<open>assetsChunks\<close> is
  \<^verbatim>\<open>htmlPluginData.assets.chunks\<close>, an object from names to chunks, and \<open>None\<close> when
  \<^verbatim>\<open>htmlPluginData.assets\<close> is undefined.
\<close>

record html_plugin_data =
  html :: string
  filename :: string
  assetsChunks :: "(string \<times> chunk) list option"

section \<open>The functions of \<^verbatim>\<open>lib/\<close> that \<^verbatim>\<open>addLinks\<close> calls\<close>

text \<open>
  The six modules that \<^verbatim>\<open>index.js\<close> requires from \<^verbatim>\<open>./lib/\<close> are parameters of the
  model: every function of \<^verbatim>\<open>index.js\<close> takes them in a record, and any of them may
  throw. A variant of \<^verbatim>\<open>doesChunkBelongToHTML\<close> takes the chunk, the compilation and
  \<^verbatim>\<open>htmlAssetsChunks\<close>; \<^verbatim>\<open>filter\<close> reads its result as a boolean.

  An attribute object is the list of its properties in the order of their assignment;
  the value \<open>None\<close> is \<^verbatim>\<open>undefined\<close>.
\<close>

type_synonym associator = "chunk \<Rightarrow> compilation \<Rightarrow> chunk list \<Rightarrow> js_error + bool"

type_synonym attributes = "(string \<times> string option) list"

record lib =
  doesChunkBelongToHTML :: "(string \<times> associator) list"
  extractChunks :: "compilation \<Rightarrow> string \<Rightarrow> js_error + chunk list"
  determineAsValue :: "string \<Rightarrow> as_option \<Rightarrow> js_error + string option"
  createHTMLElementString :: "attributes \<Rightarrow> string \<Rightarrow> js_error + string"
  insertLinksIntoHead :: "string list \<Rightarrow> string \<Rightarrow> js_error + string"

section \<open>The version check: lines 33 and 34\<close>

text \<open>
  \<^verbatim>\<open>doesChunkBelongToHTML\<close> is an ordinary object: the list of its own properties, in
  the order of \<^verbatim>\<open>Object.keys\<close>, and the properties it inherits from
  \<^verbatim>\<open>Object.prototype\<close>. The operator \<^verbatim>\<open>in\<close> and the lookup \<^verbatim>\<open>object[key]\<close> both
  follow the prototype chain. \<open>objectPrototype\<close> gives each inherited property as it
  behaves when line 52 calls it on the table with one object as argument: the result
  read as a boolean, or the \<^verbatim>\<open>TypeError\<close> of the call.
\<close>

definition objectPrototype :: "(string \<times> associator) list" where
  "objectPrototype =
     [(''constructor'', \<lambda>chunk compilation htmlAssetsChunks. Inr True),
      (''toString'', \<lambda>chunk compilation htmlAssetsChunks. Inr True),
      (''toLocaleString'', \<lambda>chunk compilation htmlAssetsChunks. Inr True),
      (''valueOf'', \<lambda>chunk compilation htmlAssetsChunks. Inr True),
      (''hasOwnProperty'', \<lambda>chunk compilation htmlAssetsChunks. Inr False),
      (''isPrototypeOf'', \<lambda>chunk compilation htmlAssetsChunks. Inr False),
      (''propertyIsEnumerable'', \<lambda>chunk compilation htmlAssetsChunks. Inr False),
      (''__lookupGetter__'', \<lambda>chunk compilation htmlAssetsChunks. Inr False),
      (''__lookupSetter__'', \<lambda>chunk compilation htmlAssetsChunks. Inr False),
      (''__defineGetter__'', \<lambda>chunk compilation htmlAssetsChunks. Inl TypeError),
      (''__defineSetter__'', \<lambda>chunk compilation htmlAssetsChunks. Inl TypeError),
      (''__proto__'', \<lambda>chunk compilation htmlAssetsChunks. Inl TypeError)]"

text \<open>\<^verbatim>\<open>Object.keys(object)\<close>\<close>

definition objectKeys :: "(string \<times> 'a) list \<Rightarrow> string list" where
  "objectKeys object = map fst object"

text \<open>\<^verbatim>\<open>key in object\<close>\<close>

definition hasProperty :: "string \<Rightarrow> (string \<times> associator) list \<Rightarrow> bool" where
  "hasProperty key object =
     (key \<in> set (objectKeys object) \<or> key \<in> set (objectKeys objectPrototype))"

text \<open>\<^verbatim>\<open>object[key]\<close>; \<open>None\<close> is \<^verbatim>\<open>undefined\<close>.\<close>

definition getProperty :: "(string \<times> associator) list \<Rightarrow> string \<Rightarrow> associator option" where
  "getProperty object key =
     (case map_of object key of
        Some v \<Rightarrow> Some v
      | None \<Rightarrow> map_of objectPrototype key)"

text \<open>An array in a template literal: its elements joined by commas.\<close>

fun arrayToString :: "string list \<Rightarrow> string" where
  "arrayToString [] = []"
| "arrayToString [x] = x"
| "arrayToString (x # y # ys) = x @ '','' @ arrayToString (y # ys)"

definition invalidVersionMessage :: "lib \<Rightarrow> string" where
  "invalidVersionMessage lib =
     ''An invalid webpackVersion was supplied. Supported values: '' @
       arrayToString (objectKeys (doesChunkBelongToHTML lib)) @ ''.''"

section \<open>Chunks of the document: lines 43 to 56\<close>

text \<open>\<^verbatim>\<open>Array.prototype.filter\<close> with a callback that may throw.\<close>

fun array_filter :: "('a \<Rightarrow> js_error + bool) \<Rightarrow> 'a list \<Rightarrow> js_error + 'a list" where
  "array_filter p [] = Inr []"
| "array_filter p (x # xs) =
     (case p x of
        Inl error \<Rightarrow> Inl error
      | Inr keep \<Rightarrow>
          (case array_filter p xs of
             Inl error \<Rightarrow> Inl error
           | Inr kept \<Rightarrow> Inr (if keep then x # kept else kept)))"

text \<open>
  The callback of line 52. Reading \<^verbatim>\<open>htmlPluginData.assets.chunks\<close> throws a
  \<^verbatim>\<open>TypeError\<close> when \<^verbatim>\<open>assets\<close> is undefined, and so does calling a property
  that is undefined.
\<close>

definition chunkBelongsToHTML ::
  "lib \<Rightarrow> string \<Rightarrow> compilation \<Rightarrow> html_plugin_data \<Rightarrow> chunk \<Rightarrow> js_error + bool" where
  "chunkBelongsToHTML lib webpackVersion compilation htmlPluginData chunk =
     (case assetsChunks htmlPluginData of
        None \<Rightarrow> Inl TypeError
      | Some assets \<Rightarrow>
          (case getProperty (doesChunkBelongToHTML lib) webpackVersion of
             None \<Rightarrow> Inl TypeError
           | Some variant \<Rightarrow> variant chunk compilation (map snd assets)))"

definition htmlChunksFor ::
  "lib \<Rightarrow> options \<Rightarrow> string \<Rightarrow> compilation \<Rightarrow> html_plugin_data \<Rightarrow> js_error + chunk list" where
  "htmlChunksFor lib opts webpackVersion compilation htmlPluginData =
     (case extractChunks lib compilation (optionsInclude opts) of
        Inl error \<Rightarrow> Inl error
      | Inr extractedChunks \<Rightarrow>
          if optionsInclude opts = ''allAssets'' then Inr extractedChunks
          else array_filter (chunkBelongsToHTML lib webpackVersion compilation htmlPluginData)
                 extractedChunks)"

section \<open>The File Selector: lines 59 to 75 of \<^verbatim>\<open>addLinks\<close>\<close>

text \<open>\<^verbatim>\<open>htmlChunks.reduce((accumulated, chunk) => accumulated.concat(chunk.files), [])\<close>\<close>

definition allFiles :: "chunk list \<Rightarrow> string list" where
  "allFiles htmlChunks = foldl (\<lambda>accumulated chunk. accumulated @ files chunk) [] htmlChunks"

text \<open>
  \<^verbatim>\<open>[...new Set(allFiles)]\<close>: a set keeps the first occurrence of each value, in the
  order of insertion.
\<close>

definition setAdd :: "'a list \<Rightarrow> 'a \<Rightarrow> 'a list" where
  "setAdd s x = (if x \<in> set s then s else s @ [x])"

definition uniqueFiles :: "string list \<Rightarrow> string list" where
  "uniqueFiles fs = foldl setAdd [] fs"

text \<open>
  The search of \<^verbatim>\<open>RegExp.prototype.exec\<close>: the matcher is tried at each index of the
  list in turn, and the first match ends the search.
\<close>

fun firstMatch :: "(nat \<Rightarrow> nat option) \<Rightarrow> nat list \<Rightarrow> nat option" where
  "firstMatch m [] = None"
| "firstMatch m (i # rest) = (case m i of Some e \<Rightarrow> Some e | None \<Rightarrow> firstMatch m rest)"

text \<open>
  \<^verbatim>\<open>regex.test(S)\<close>: the result and the object after the call. Without the flags
  \<^verbatim>\<open>g\<close> and \<^verbatim>\<open>y\<close> the search starts at index 0 and \<open>lastIndex\<close> is left alone. With
  \<^verbatim>\<open>g\<close> the search starts at \<open>lastIndex\<close>; with \<^verbatim>\<open>y\<close> the matcher is tried at
  \<open>lastIndex\<close> only. With either flag a match sets \<open>lastIndex\<close> to its end, and a failure
  (also a \<open>lastIndex\<close> beyond the end of the string) sets it to 0.
\<close>

definition regExpTest :: "regexp \<Rightarrow> string \<Rightarrow> bool \<times> regexp" where
  "regExpTest R S =
     (if sticky R then
        (case (if lastIndex R \<le> length S then matchAt R S (lastIndex R) else None) of
           None \<Rightarrow> (False, R\<lparr>lastIndex := 0\<rparr>)
         | Some e \<Rightarrow> (True, R\<lparr>lastIndex := e\<rparr>))
      else if global R then
        (case firstMatch (matchAt R S) [lastIndex R..<Suc (length S)] of
           None \<Rightarrow> (False, R\<lparr>lastIndex := 0\<rparr>)
         | Some e \<Rightarrow> (True, R\<lparr>lastIndex := e\<rparr>))
      else
        (case firstMatch (matchAt R S) [0..<Suc (length S)] of
           None \<Rightarrow> (False, R)
         | Some e \<Rightarrow> (True, R)))"

text \<open>
  \<^verbatim>\<open>patterns.some(regex => regex.test(file))\<close> and
  \<^verbatim>\<open>patterns.every(regex => !regex.test(file))\<close> on the store: each stops at the first
  pattern whose \<^verbatim>\<open>test\<close> is true, and the patterns after it are not touched.
\<close>

fun someTest :: "nat list \<Rightarrow> string \<Rightarrow> (nat \<Rightarrow> regexp) \<Rightarrow> bool \<times> (nat \<Rightarrow> regexp)" where
  "someTest [] file store = (False, store)"
| "someTest (regex # rest) file store =
     (case regExpTest (store regex) file of
        (matched, R) \<Rightarrow>
          if matched then (True, store(regex := R))
          else someTest rest file (store(regex := R)))"

fun everyNotTest :: "nat list \<Rightarrow> string \<Rightarrow> (nat \<Rightarrow> regexp) \<Rightarrow> bool \<times> (nat \<Rightarrow> regexp)" where
  "everyNotTest [] file store = (True, store)"
| "everyNotTest (regex # rest) file store =
     (case regExpTest (store regex) file of
        (matched, R) \<Rightarrow>
          if matched then (False, store(regex := R))
          else everyNotTest rest file (store(regex := R)))"

text \<open>
  The two callbacks of \<^verbatim>\<open>filter\<close>. An option that is not set is falsy; an array,
  also the empty one, is truthy.
\<close>

definition whitelisted :: "options \<Rightarrow> string \<Rightarrow> (nat \<Rightarrow> regexp) \<Rightarrow> bool \<times> (nat \<Rightarrow> regexp)" where
  "whitelisted opts file store =
     (case fileWhitelist opts of
        None \<Rightarrow> (True, store)
      | Some patterns \<Rightarrow> someTest patterns file store)"

definition notBlacklisted :: "options \<Rightarrow> string \<Rightarrow> (nat \<Rightarrow> regexp) \<Rightarrow> bool \<times> (nat \<Rightarrow> regexp)" where
  "notBlacklisted opts file store =
     (case fileBlacklist opts of
        None \<Rightarrow> (True, store)
      | Some patterns \<Rightarrow> everyNotTest patterns file store)"

text \<open>\<^verbatim>\<open>Array.prototype.filter\<close> with a callback that acts on the store, file by file.\<close>

fun filterFiles ::
  "(string \<Rightarrow> (nat \<Rightarrow> regexp) \<Rightarrow> bool \<times> (nat \<Rightarrow> regexp)) \<Rightarrow> string list \<Rightarrow> (nat \<Rightarrow> regexp)
     \<Rightarrow> string list \<times> (nat \<Rightarrow> regexp)" where
  "filterFiles p [] store = ([], store)"
| "filterFiles p (file # rest) store =
     (case p file store of
        (keep, store') \<Rightarrow>
          (case filterFiles p rest store' of
             (kept, store'') \<Rightarrow> (if keep then file # kept else kept, store'')))"

text \<open>
  Lines 63 to 73: the first \<^verbatim>\<open>filter\<close> runs over all files, then the second over what
  the first kept. The result is the files kept and the store as the calls leave it.
\<close>

definition filterStage :: "options \<Rightarrow> chunk list \<Rightarrow> string list \<times> (nat \<Rightarrow> regexp)" where
  "filterStage opts htmlChunks =
     (case filterFiles (whitelisted opts) (uniqueFiles (allFiles htmlChunks)) (regexps opts) of
        (passed, store) \<Rightarrow> filterFiles (notBlacklisted opts) passed store)"

definition filteredFiles :: "options \<Rightarrow> chunk list \<Rightarrow> string list" where
  "filteredFiles opts htmlChunks = fst (filterStage opts htmlChunks)"

text \<open>The store that \<^verbatim>\<open>addLinks\<close> leaves behind once line 73 is passed.\<close>

definition regexpsAfter :: "options \<Rightarrow> chunk list \<Rightarrow> nat \<Rightarrow> regexp" where
  "regexpsAfter opts htmlChunks = snd (filterStage opts htmlChunks)"

text \<open>
  A pattern matches a file: the search from index 0 finds a match. A pattern is
  stateless when it has neither the flag \<^verbatim>\<open>g\<close> nor the flag \<^verbatim>\<open>y\<close>. \<open>patternsOf\<close> are
  the references of both lists.
\<close>

definition regExpMatches :: "regexp \<Rightarrow> string \<Rightarrow> bool" where
  "regExpMatches R S = (firstMatch (matchAt R S) [0..<Suc (length S)] \<noteq> None)"

definition stateless :: "regexp \<Rightarrow> bool" where
  "stateless R = (\<not> global R \<and> \<not> sticky R)"

definition patternsOf :: "options \<Rightarrow> nat list" where
  "patternsOf opts =
     (case fileWhitelist opts of None \<Rightarrow> [] | Some patterns \<Rightarrow> patterns) @
     (case fileBlacklist opts of None \<Rightarrow> [] | Some patterns \<Rightarrow> patterns)"

text \<open>\<^verbatim>\<open>filteredFiles.sort()\<close>: no comparison function, so strings in code unit order.\<close>

definition sortedFilteredFiles :: "options \<Rightarrow> chunk list \<Rightarrow> string list" where
  "sortedFilteredFiles opts htmlChunks = sort (filteredFiles opts htmlChunks)"

section \<open>The Attribute Resolver and the loop: lines 77 to 108\<close>

text \<open>\<^verbatim>\<open>compilation.outputOptions.publicPath || ''\<close>: undefined and the empty string are falsy.\<close>

definition publicPathPrefix :: "compilation \<Rightarrow> string" where
  "publicPathPrefix compilation =
     (case publicPath compilation of
        None \<Rightarrow> []
      | Some p \<Rightarrow> if p = [] then [] else p)"

text \<open>
  Lines 80 to 101, for one file: the attribute object. The assignment of line 90 adds the
  property \<^verbatim>\<open>as\<close> whatever \<^verbatim>\<open>determineAsValue\<close> returns.
\<close>

definition linkAttributes :: "lib \<Rightarrow> options \<Rightarrow> string \<Rightarrow> string \<Rightarrow> js_error + attributes" where
  "linkAttributes lib opts prefix file =
     (if rel opts = ''preload'' then
        (case determineAsValue lib (prefix @ file) (optionsAs opts) of
           Inl error \<Rightarrow> Inl error
         | Inr asValue \<Rightarrow>
             if asValue = Some ''font'' then
               Inr [(''href'', Some (prefix @ file)), (''rel'', Some (rel opts)),
                    (''as'', asValue), (''crossorigin'', Some ''anonymous'')]
             else
               Inr [(''href'', Some (prefix @ file)), (''rel'', Some (rel opts)),
                    (''as'', asValue)])
      else Inr [(''href'', Some (prefix @ file)), (''rel'', Some (rel opts))])"

text \<open>The loop of line 79, with the array \<^verbatim>\<open>links\<close> as accumulator.\<close>

fun linksLoop :: "lib \<Rightarrow> options \<Rightarrow> string \<Rightarrow> string list \<Rightarrow> string list \<Rightarrow> js_error + string list" where
  "linksLoop lib opts prefix [] links = Inr links"
| "linksLoop lib opts prefix (file # rest) links =
     (case linkAttributes lib opts prefix file of
        Inl error \<Rightarrow> Inl error
      | Inr attributes \<Rightarrow>
          (case createHTMLElementString lib attributes ''link'' of
             Inl error \<Rightarrow> Inl error
           | Inr linkElementString \<Rightarrow>
               linksLoop lib opts prefix rest (links @ [linkElementString])))"

text \<open>Lines 43 to 108: the value of \<^verbatim>\<open>links\<close> when line 110 is reached.\<close>

definition computedLinks ::
  "lib \<Rightarrow> options \<Rightarrow> string \<Rightarrow> compilation \<Rightarrow> html_plugin_data \<Rightarrow> js_error + string list" where
  "computedLinks lib opts webpackVersion compilation htmlPluginData =
     (case htmlChunksFor lib opts webpackVersion compilation htmlPluginData of
        Inl error \<Rightarrow> Inl error
      | Inr selected \<Rightarrow>
          linksLoop lib opts (publicPathPrefix compilation) (sortedFilteredFiles opts selected) [])"

section \<open>\<^verbatim>\<open>addLinks\<close>\<close>

definition addLinks ::
  "lib \<Rightarrow> options \<Rightarrow> string \<Rightarrow> compilation \<Rightarrow> html_plugin_data \<Rightarrow> js_error + html_plugin_data" where
  "addLinks lib opts webpackVersion compilation htmlPluginData =
     (if \<not> hasProperty webpackVersion (doesChunkBelongToHTML lib) then
        Inl (AssertionError (invalidVersionMessage lib))
      else if filename htmlPluginData \<in> set (excludeHtmlNames opts) then Inr htmlPluginData
      else
        (case computedLinks lib opts webpackVersion compilation htmlPluginData of
           Inl error \<Rightarrow> Inl error
         | Inr links \<Rightarrow>
             (case insertLinksIntoHead lib links (html htmlPluginData) of
                Inl error \<Rightarrow> Inl error
              | Inr newHtml \<Rightarrow> Inr (htmlPluginData\<lparr>html := newHtml\<rparr>))))"

section \<open>\<^verbatim>\<open>apply\<close>\<close>

text \<open>
  The compiler is read through \<^verbatim>\<open>'hooks' in compiler\<close> only. \<open>pluginName\<close> is
  \<^verbatim>\<open>this.constructor.name\<close>.
\<close>

record compiler =
  hooksInCompiler :: bool

definition pluginName :: string where
  "pluginName = ''PreloadPlugin''"

definition unableToTapMessage :: string where
  "unableToTapMessage =
     ''Unable to tap into the HtmlWebpackPlugin'' @ [CHR 0x27] @ ''s callbacks. Make sure to list '' @
       pluginName @ '' at some point after HtmlWebpackPlugin in webpack'' @ [CHR 0x27] @
       ''s plugins array.''"

text \<open>
  Lines 125 to 142: the hook to tap. Reading \<^verbatim>\<open>getHooks\<close> from an option
  \<^verbatim>\<open>HtmlWebpackPlugin\<close> that is not set throws a \<^verbatim>\<open>TypeError\<close>.
\<close>

definition findHook :: "options \<Rightarrow> compilation \<Rightarrow> js_error + hook option" where
  "findHook opts compilation =
     (case htmlWebpackPluginAfterHtmlProcessing compilation of
        Some hook \<Rightarrow> Inr (Some hook)
      | None \<Rightarrow>
          (case HtmlWebpackPlugin opts of
             None \<Rightarrow> Inl TypeError
           | Some getHooksBeforeEmit \<Rightarrow> getHooksBeforeEmit compilation))"

text \<open>
  The callback that \<^verbatim>\<open>apply\<close> registers for the compilation, lines 123 to 167 and 172
  to 180. It returns the compilation and, when a hook was tapped, that hook with the
  new tap.
\<close>

definition compilationCallback ::
  "options \<Rightarrow> compiler \<Rightarrow> compilation \<Rightarrow> js_error + compilation \<times> hook option" where
  "compilationCallback opts compiler compilation =
     (if hooksInCompiler compiler then
        (case findHook opts compilation of
           Inl error \<Rightarrow> Inl error
         | Inr None \<Rightarrow>
             Inr (compilation\<lparr>errors := errors compilation @ [unableToTapMessage]\<rparr>, None)
         | Inr (Some hook) \<Rightarrow> Inr (compilation, Some (hook\<lparr>taps := taps hook @ [pluginName]\<rparr>)))
      else
        Inr (compilation\<lparr>plugins :=
               plugins compilation @ [''html-webpack-plugin-before-html-processing'']\<rparr>, None))"

text \<open>
  The callback of the host, \<^verbatim>\<open>callback(error)\<close> or \<^verbatim>\<open>callback(null, htmlPluginData)\<close>:
  it acts on the state of the host and may throw.
\<close>

datatype callback_arg =
    Failure js_error
  | Success html_plugin_data

type_synonym 's callback = "callback_arg \<Rightarrow> 's \<Rightarrow> js_error option \<times> 's"

text \<open>The version that \<^verbatim>\<open>apply\<close> passes to \<^verbatim>\<open>addLinks\<close>: line 161 and line 175.\<close>

definition versionFor :: "compiler \<Rightarrow> string" where
  "versionFor compiler = (if hooksInCompiler compiler then ''v4'' else ''v3'')"

text \<open>
  The callback registered for the document, lines 156 to 165 and 173 to 179. The
  \<^verbatim>\<open>try\<close> block covers the call of \<^verbatim>\<open>addLinks\<close> and the call of \<^verbatim>\<open>callback\<close>
  with its result. The first component of the result is the exception that leaves the
  callback, if any.
\<close>

definition htmlPluginDataCallback ::
  "lib \<Rightarrow> options \<Rightarrow> compiler \<Rightarrow> compilation \<Rightarrow> html_plugin_data \<Rightarrow> 's callback \<Rightarrow> 's
     \<Rightarrow> js_error option \<times> 's" where
  "htmlPluginDataCallback lib opts compiler compilation htmlPluginData callback s =
     (case addLinks lib opts (versionFor compiler) compilation htmlPluginData of
        Inl error \<Rightarrow> callback (Failure error) s
      | Inr result \<Rightarrow>
          (case callback (Success result) s of
             (None, s') \<Rightarrow> (None, s')
           | (Some error, s') \<Rightarrow> callback (Failure error) s'))"

section \<open>The functions of \<^verbatim>\<open>lib/\<close>, from the specification\<close>

text \<open>
  Modelled from the spec: \<^verbatim>\<open>lib/extract-chunks.js\<close> is not among the sources. Section
  4.1: in both modes the candidates are all chunks of the compilation.
\<close>

definition extractChunks_spec :: "compilation \<Rightarrow> string \<Rightarrow> js_error + chunk list" where
  "extractChunks_spec compilation optionsInclude' = Inr (chunks compilation)"

text \<open>
  Modelled from the spec: \<^verbatim>\<open>lib/does-chunk-belong-to-html.js\<close> is not among the
  sources. Section 4.2: one variant for each supported version (\<^verbatim>\<open>apply\<close> names
  \<^verbatim>\<open>v3\<close> and \<^verbatim>\<open>v4\<close>), one by direct inclusion in the chunks of the document, one by
  membership in a chunk group of the compilation that holds a chunk of the document.
\<close>

definition v3 :: associator where
  "v3 chunk compilation htmlAssetsChunks = Inr (chunk \<in> set htmlAssetsChunks)"

text \<open>
  Modelled from the spec: the variant of section 4.2 that decides by membership in a
  chunk group.
\<close>

definition v4 :: associator where
  "v4 chunk compilation htmlAssetsChunks =
     Inr (list_ex (\<lambda>group. chunk \<in> set group \<and> list_ex (\<lambda>h. h \<in> set group) htmlAssetsChunks)
            (chunkGroups compilation))"

text \<open>Modelled from the spec: the table of the two variants, by version identifier.\<close>

definition doesChunkBelongToHTML_spec :: "(string \<times> associator) list" where
  "doesChunkBelongToHTML_spec = [(''v3'', v3), (''v4'', v4)]"

text \<open>
  Modelled from the spec: \<^verbatim>\<open>lib/determine-as-value.js\<close> is not among the sources.
  Sections 4.4 and 6: a fixed value or a function of the URL when the option \<^verbatim>\<open>as\<close> is
  set, else the extension of the path of the URL (query string and hash left out)
  looked up in a table, and no value for an extension that is not in the table. The
  table has the entries that the scenarios of section 8 state.
\<close>

definition extensionTable :: "(string \<times> string) list" where
  "extensionTable = [(''.js'', ''script''), (''.css'', ''style''), (''.woff2'', ''font'')]"

text \<open>
  Modelled from the spec: the path of a URL, without query string and hash, and the
  extension of a path (from the last dot of its last segment on).
\<close>

definition pathname :: "string \<Rightarrow> string" where
  "pathname url = takeWhile (\<lambda>c. c \<noteq> CHR ''?'' \<and> c \<noteq> CHR ''#'') url"

definition extname :: "string \<Rightarrow> string" where
  "extname path =
     (if CHR ''.'' \<in> set (takeWhile (\<lambda>c. c \<noteq> CHR ''/'') (rev path))
      then CHR ''.'' # rev (takeWhile (\<lambda>c. c \<noteq> CHR ''.'') (rev path))
      else [])"

text \<open>Modelled from the spec: the resolution of section 4.4.\<close>

definition determineAsValue_spec :: "string \<Rightarrow> as_option \<Rightarrow> js_error + string option" where
  "determineAsValue_spec href optionsAs' =
     (case optionsAs' of
        AsString fixed \<Rightarrow> Inr (Some fixed)
      | AsFunction f \<Rightarrow> Inr (f href)
      | AsUndefined \<Rightarrow> Inr (map_of extensionTable (extname (pathname href))))"

text \<open>
  Modelled from the spec: \<^verbatim>\<open>lib/create-html-element-string.js\<close> is not among the
  sources. Section 4.5 and the scenarios of section 8: the element name, then each
  attribute that has a value as \<^verbatim>\<open>name="value"\<close>, in the order of assignment, the
  value written as it is.
\<close>

definition quoted :: "string \<Rightarrow> string" where
  "quoted v = CHR 0x22 # v @ [CHR 0x22]"

text \<open>
  Modelled from the spec: the attributes in their order; one whose value is undefined is
  left out (section 4.4).
\<close>

fun attributeStrings :: "attributes \<Rightarrow> string" where
  "attributeStrings [] = []"
| "attributeStrings ((name, None) # rest) = attributeStrings rest"
| "attributeStrings ((name, Some v) # rest) = '' '' @ name @ ''='' @ quoted v @ attributeStrings rest"

text \<open>Modelled from the spec: the element string of section 4.5.\<close>

definition createHTMLElementString_spec :: "attributes \<Rightarrow> string \<Rightarrow> js_error + string" where
  "createHTMLElementString_spec attributes elementName =
     Inr (''<'' @ elementName @ attributeStrings attributes @ ''>'')"

text \<open>
  Modelled from the spec: \<^verbatim>\<open>lib/insert-links-into-head.js\<close> is not among the sources.
  Section 4.6: the tags, one after the other, go in front of the first closing head tag,
  found without regard to the case of its letters; markup without one is returned as
  it is.
\<close>

definition toLowerCase :: "char \<Rightarrow> char" where
  "toLowerCase c =
     (case map_of (zip ''ABCDEFGHIJKLMNOPQRSTUVWXYZ'' ''abcdefghijklmnopqrstuvwxyz'') c of
        None \<Rightarrow> c
      | Some l \<Rightarrow> l)"

text \<open>
  Modelled from the spec: a closing head tag starts the string, and the index of the
  first one in a string.
\<close>

definition startsWithClosingHead :: "string \<Rightarrow> bool" where
  "startsWithClosingHead s = (map toLowerCase (take 7 s) = ''</head>'')"

fun closingHeadIndex :: "string \<Rightarrow> nat option" where
  "closingHeadIndex [] = None"
| "closingHeadIndex (c # cs) =
     (if startsWithClosingHead (c # cs) then Some 0
      else map_option Suc (closingHeadIndex cs))"

text \<open>Modelled from the spec: the insertion of section 4.6.\<close>

definition insertLinksIntoHead_spec :: "string list \<Rightarrow> string \<Rightarrow> js_error + string" where
  "insertLinksIntoHead_spec links html' =
     (case closingHeadIndex html' of
        None \<Rightarrow> Inr html'
      | Some i \<Rightarrow> Inr (take i html' @ concat links @ drop i html'))"

text \<open>Modelled from the spec: the five functions together.\<close>

definition specLib :: lib where
  "specLib =
     \<lparr>doesChunkBelongToHTML = doesChunkBelongToHTML_spec,
      extractChunks = extractChunks_spec,
      determineAsValue = determineAsValue_spec,
      createHTMLElementString = createHTMLElementString_spec,
      insertLinksIntoHead = insertLinksIntoHead_spec\<rparr>"

text \<open>
  Modelled from the spec: a closing head tag, in any mix of upper and lower case
  (section 4.6).
\<close>

definition isClosingHeadTag :: "string \<Rightarrow> bool" where
  "isClosingHeadTag tag = (map toLowerCase tag = ''</head>'')"

section \<open>The scenario of section 8 of the specification\<close>

text \<open>
  One chunk with the files \<^verbatim>\<open>app.js\<close> and \<^verbatim>\<open>app.css\<close>, which the document holds; no
  filters; \<^verbatim>\<open>rel: "preload"\<close>; the public path \<^verbatim>\<open>/dist/\<close>.
\<close>

definition appChunk :: chunk where
  "appChunk = \<lparr>chunkId = ''app'', files = [''app.js'', ''app.css'']\<rparr>"

definition scenarioCompilation :: compilation where
  "scenarioCompilation =
     \<lparr>chunks = [appChunk], chunkGroups = [[appChunk]], publicPath = Some ''/dist/'',
      errors = [], plugins = [], htmlWebpackPluginAfterHtmlProcessing = None\<rparr>"

text \<open>
  Patterns for the examples: one that matches nothing, \<^verbatim>\<open>/^app/\<close>, \<^verbatim>\<open>/^app\.css$/\<close> and
  \<^verbatim>\<open>/^app/g\<close>, each with \<open>lastIndex\<close> 0.
\<close>

definition neverMatches :: regexp where
  "neverMatches =
     \<lparr>matchAt = (\<lambda>S i. None), global = False, sticky = False, lastIndex = 0\<rparr>"

definition appPrefix :: regexp where
  "appPrefix =
     \<lparr>matchAt = (\<lambda>S i. if i = 0 \<and> take 3 S = ''app'' then Some 3 else None),
      global = False, sticky = False, lastIndex = 0\<rparr>"

definition appCss :: regexp where
  "appCss =
     \<lparr>matchAt = (\<lambda>S i. if i = 0 \<and> S = ''app.css'' then Some 7 else None),
      global = False, sticky = False, lastIndex = 0\<rparr>"

definition appPrefixGlobal :: regexp where
  "appPrefixGlobal = appPrefix\<lparr>global := True\<rparr>"

definition scenarioOptions :: options where
  "scenarioOptions =
     \<lparr>rel = ''preload'', optionsInclude = ''asyncChunks'', optionsAs = AsUndefined,
      fileWhitelist = None, fileBlacklist = None, regexps = (\<lambda>regex. neverMatches),
      excludeHtmlNames = [],
      HtmlWebpackPlugin = None\<rparr>"

definition scenarioData :: html_plugin_data where
  "scenarioData =
     \<lparr>html = ''<html><head></head><body></body></html>'', filename = ''index.html'',
      assetsChunks = Some [(''app'', appChunk)]\<rparr>"

text \<open>
  A second chunk, which shares a file with the first; a setting of both filters with
  stateless patterns; and a whitelist with the one pattern \<^verbatim>\<open>/^app/g\<close>.
\<close>

definition vendorChunk :: chunk where
  "vendorChunk = \<lparr>chunkId = ''vendor'', files = [''vendor.js'', ''app.js'']\<rparr>"

definition filterOptions :: options where
  "filterOptions =
     scenarioOptions\<lparr>fileWhitelist := Some [0], fileBlacklist := Some [1],
                     regexps := (\<lambda>regex. if regex = 0 then appPrefix else appCss)\<rparr>"

definition globalOptions :: options where
  "globalOptions =
     scenarioOptions\<lparr>fileWhitelist := Some [0], regexps := (\<lambda>regex. appPrefixGlobal)\<rparr>"

text \<open>The two tags of the scenario, as section 8 writes them.\<close>

definition appJsTag :: string where
  "appJsTag = ''<link href='' @ quoted ''/dist/app.js'' @ '' rel='' @ quoted ''preload'' @
     '' as='' @ quoted ''script'' @ ''>''"

definition appCssTag :: string where
  "appCssTag = ''<link href='' @ quoted ''/dist/app.css'' @ '' rel='' @ quoted ''preload'' @
     '' as='' @ quoted ''style'' @ ''>''"

text \<open>Functions of \<^verbatim>\<open>lib/\<close> that throw whenever they are called.\<close>

definition throwingLib :: lib where
  "throwingLib =
     \<lparr>doesChunkBelongToHTML = doesChunkBelongToHTML_spec,
      extractChunks = (\<lambda>compilation optionsInclude'. Inl (Thrown ''extractChunks'')),
      determineAsValue = (\<lambda>href optionsAs'. Inl (Thrown ''determineAsValue'')),
      createHTMLElementString = (\<lambda>attributes elementName. Inl (Thrown ''createHTMLElementString'')),
      insertLinksIntoHead = (\<lambda>links html'. Inl (Thrown ''insertLinksIntoHead''))\<rparr>"

text \<open>A callback of the host that records each call and does not throw.\<close>

definition recordingCallback :: "callback_arg list callback" where
  "recordingCallback arg calls = (None, calls @ [arg])"

text \<open>An attribute object has a property of the given name.\<close>

definition hasAttribute :: "string \<Rightarrow> attributes \<Rightarrow> bool" where
  "hasAttribute name attributes = (name \<in> set (map fst attributes))"

section \<open>Unfolding the definitions on concrete inputs\<close>

lemmas pattern_defs = regExpTest_def regExpMatches_def neverMatches_def appPrefix_def
  appCss_def appPrefixGlobal_def

lemmas scenario_defs = specLib_def scenarioOptions_def scenarioCompilation_def scenarioData_def
  appChunk_def extractChunks_spec_def doesChunkBelongToHTML_spec_def v3_def v4_def
  determineAsValue_spec_def extensionTable_def pathname_def extname_def
  createHTMLElementString_spec_def quoted_def insertLinksIntoHead_spec_def
  startsWithClosingHead_def toLowerCase_def

lemmas pipeline_defs = addLinks_def computedLinks_def htmlChunksFor_def chunkBelongsToHTML_def
  getProperty_def hasProperty_def objectKeys_def objectPrototype_def invalidVersionMessage_def
  sortedFilteredFiles_def filteredFiles_def filterStage_def uniqueFiles_def allFiles_def
  setAdd_def whitelisted_def notBlacklisted_def publicPathPrefix_def linkAttributes_def

section \<open>Properties of the File Selector\<close>

lemma set_allFiles_acc:
  "set (foldl (\<lambda>accumulated chunk. accumulated @ files chunk) acc cs)
     = set acc \<union> (\<Union>c \<in> set cs. set (files c))"
  by (induction cs arbitrary: acc) auto

lemma set_allFiles: "set (allFiles cs) = (\<Union>c \<in> set cs. set (files c))"
  by (simp add: allFiles_def set_allFiles_acc)

lemma set_setAdd_acc: "set (foldl setAdd acc fs) = set acc \<union> set fs"
  by (induction fs arbitrary: acc) (auto simp: setAdd_def)

lemma distinct_setAdd_acc: "distinct acc \<Longrightarrow> distinct (foldl setAdd acc fs)"
  by (induction fs arbitrary: acc) (auto simp: setAdd_def)

lemma set_uniqueFiles: "set (uniqueFiles fs) = set fs"
  by (simp add: uniqueFiles_def set_setAdd_acc)

lemma distinct_uniqueFiles: "distinct (uniqueFiles fs)"
  by (simp add: uniqueFiles_def distinct_setAdd_acc)

lemma set_filterFiles: "set (fst (filterFiles p fs store)) \<subseteq> set fs"
proof (induction fs arbitrary: store)
  case Nil
  then show ?case by simp
next
  case (Cons f fs)
  obtain keep store' where p: "p f store = (keep, store')" by (cases "p f store")
  obtain kept store'' where r: "filterFiles p fs store' = (kept, store'')"
    by (cases "filterFiles p fs store'")
  from Cons.IH [of store'] r have "set kept \<subseteq> set fs" by simp
  with p r show ?case by auto
qed

lemma distinct_filterFiles: "distinct fs \<Longrightarrow> distinct (fst (filterFiles p fs store))"
proof (induction fs arbitrary: store)
  case Nil
  then show ?case by simp
next
  case (Cons f fs)
  obtain keep store' where p: "p f store = (keep, store')" by (cases "p f store")
  obtain kept store'' where r: "filterFiles p fs store' = (kept, store'')"
    by (cases "filterFiles p fs store'")
  from set_filterFiles [of p fs store'] r have "set kept \<subseteq> set fs" by simp
  moreover from Cons.IH [of store'] Cons.prems r have "distinct kept" by simp
  ultimately show ?case using p r Cons.prems by auto
qed

lemma distinct_filteredFiles: "distinct (filteredFiles opts cs)"
proof -
  obtain passed store where
    w: "filterFiles (whitelisted opts) (uniqueFiles (allFiles cs)) (regexps opts) = (passed, store)"
    by (cases "filterFiles (whitelisted opts) (uniqueFiles (allFiles cs)) (regexps opts)")
  from distinct_filterFiles [OF distinct_uniqueFiles, of "whitelisted opts" "allFiles cs" "regexps opts"] w
  have "distinct passed" by simp
  then have "distinct (fst (filterFiles (notBlacklisted opts) passed store))"
    by (rule distinct_filterFiles)
  with w show ?thesis by (simp add: filteredFiles_def filterStage_def)
qed

text \<open>
  C1. For every list of chunks and every configuration of the filters, the list of files
  that the File Selector hands on has no path twice and is in ascending lexicographic
  order.
\<close>

theorem file_selector_distinct_sorted:
  "distinct (sortedFilteredFiles opts htmlChunks) \<and> sorted (sortedFilteredFiles opts htmlChunks)"
  by (simp add: sortedFilteredFiles_def distinct_filteredFiles)

theorem file_selector_distinct_sorted_witness:
  "sortedFilteredFiles scenarioOptions [appChunk, vendorChunk] = [''app.css'', ''app.js'', ''vendor.js'']
   \<and> distinct (sortedFilteredFiles scenarioOptions [appChunk, vendorChunk])
   \<and> sorted (sortedFilteredFiles scenarioOptions [appChunk, vendorChunk])"
  using file_selector_distinct_sorted [of scenarioOptions "[appChunk, vendorChunk]"]
  by (simp add: pipeline_defs scenarioOptions_def appChunk_def vendorChunk_def)

subsection \<open>Stateless patterns\<close>

lemma regExpTest_stateless: "stateless R \<Longrightarrow> regExpTest R S = (regExpMatches R S, R)"
  by (simp add: stateless_def regExpTest_def regExpMatches_def split: option.splits)

lemma someTest_stateless:
  "\<forall>regex \<in> set patterns. stateless (store regex) \<Longrightarrow>
     someTest patterns file store = (\<exists>regex \<in> set patterns. regExpMatches (store regex) file, store)"
  by (induction patterns) (simp_all add: regExpTest_stateless)

lemma everyNotTest_stateless:
  "\<forall>regex \<in> set patterns. stateless (store regex) \<Longrightarrow>
     everyNotTest patterns file store =
       (\<forall>regex \<in> set patterns. \<not> regExpMatches (store regex) file, store)"
  by (induction patterns) (simp_all add: regExpTest_stateless)

lemma filterFiles_pure:
  "\<forall>file. p file store = (q file, store) \<Longrightarrow> filterFiles p fs store = (filter q fs, store)"
  by (induction fs) simp_all

text \<open>The patterns of the whitelist match the file, or the option is not set.\<close>

lemma whitelisted_stateless:
  "\<forall>regex \<in> set (patternsOf opts). stateless (store regex) \<Longrightarrow>
     whitelisted opts file store =
       (case fileWhitelist opts of
          None \<Rightarrow> True
        | Some patterns \<Rightarrow> \<exists>regex \<in> set patterns. regExpMatches (store regex) file, store)"
  by (cases "fileWhitelist opts") (simp_all add: whitelisted_def patternsOf_def someTest_stateless)

lemma notBlacklisted_stateless:
  "\<forall>regex \<in> set (patternsOf opts). stateless (store regex) \<Longrightarrow>
     notBlacklisted opts file store =
       (case fileBlacklist opts of
          None \<Rightarrow> True
        | Some patterns \<Rightarrow> \<forall>regex \<in> set patterns. \<not> regExpMatches (store regex) file, store)"
  by (cases "fileBlacklist opts")
     (simp_all add: notBlacklisted_def patternsOf_def everyNotTest_stateless)

lemma filterStage_stateless:
  assumes "\<forall>regex \<in> set (patternsOf opts). stateless (regexps opts regex)"
  shows "filterStage opts cs =
     (filter (\<lambda>file. case fileBlacklist opts of
                 None \<Rightarrow> True
               | Some patterns \<Rightarrow> \<forall>regex \<in> set patterns. \<not> regExpMatches (regexps opts regex) file)
        (filter (\<lambda>file. case fileWhitelist opts of
                   None \<Rightarrow> True
                 | Some patterns \<Rightarrow> \<exists>regex \<in> set patterns. regExpMatches (regexps opts regex) file)
           (uniqueFiles (allFiles cs))),
      regexps opts)"
proof -
  define inWhitelist where "inWhitelist = (\<lambda>file. case fileWhitelist opts of
       None \<Rightarrow> True
     | Some patterns \<Rightarrow> \<exists>regex \<in> set patterns. regExpMatches (regexps opts regex) file)"
  define offBlacklist where "offBlacklist = (\<lambda>file. case fileBlacklist opts of
       None \<Rightarrow> True
     | Some patterns \<Rightarrow> \<forall>regex \<in> set patterns. \<not> regExpMatches (regexps opts regex) file)"
  have w: "\<forall>file. whitelisted opts file (regexps opts) = (inWhitelist file, regexps opts)"
    using whitelisted_stateless [OF assms] by (simp add: inWhitelist_def)
  have b: "\<forall>file. notBlacklisted opts file (regexps opts) = (offBlacklist file, regexps opts)"
    using notBlacklisted_stateless [OF assms] by (simp add: offBlacklist_def)
  have "filterStage opts cs =
      (filter offBlacklist (filter inWhitelist (uniqueFiles (allFiles cs))), regexps opts)"
    unfolding filterStage_def
    by (simp add: filterFiles_pure [of "whitelisted opts" "regexps opts" inWhitelist, OF w]
        filterFiles_pure [of "notBlacklisted opts" "regexps opts" offBlacklist, OF b])
  then show ?thesis by (simp add: inWhitelist_def offBlacklist_def)
qed

text \<open>
  C2, as amended. When no pattern of the two lists has the flag \<^verbatim>\<open>g\<close> or the flag
  \<^verbatim>\<open>y\<close>, a file is in the output of the filtering stage exactly when it is a file of
  one of the chunks, the whitelist is not set or one of its patterns matches the file,
  and the blacklist is not set or none of its patterns matches the file; and the
  patterns are left as they were.
\<close>

theorem file_survives_filters_iff:
  assumes "\<forall>regex \<in> set (patternsOf opts). stateless (regexps opts regex)"
  shows "(file \<in> set (filteredFiles opts htmlChunks) \<longleftrightarrow>
     file \<in> set (allFiles htmlChunks) \<and>
     (fileWhitelist opts = None \<or>
        (\<exists>patterns. fileWhitelist opts = Some patterns \<and>
           (\<exists>regex \<in> set patterns. regExpMatches (regexps opts regex) file))) \<and>
     (fileBlacklist opts = None \<or>
        (\<exists>patterns. fileBlacklist opts = Some patterns \<and>
           (\<forall>regex \<in> set patterns. \<not> regExpMatches (regexps opts regex) file)))) \<and>
     regexpsAfter opts htmlChunks = regexps opts"
  by (cases "fileWhitelist opts"; cases "fileBlacklist opts")
     (auto simp: filteredFiles_def regexpsAfter_def filterStage_stateless [OF assms] set_uniqueFiles)

theorem file_survives_filters_iff_witness:
  "''app.js'' \<in> set (filteredFiles filterOptions [appChunk, vendorChunk]) \<and>
   ''app.css'' \<notin> set (filteredFiles filterOptions [appChunk, vendorChunk]) \<and>
   ''vendor.js'' \<notin> set (filteredFiles filterOptions [appChunk, vendorChunk])"
proof -
  have s: "\<forall>regex \<in> set (patternsOf filterOptions). stateless (regexps filterOptions regex)"
    by (simp add: patternsOf_def filterOptions_def scenarioOptions_def stateless_def
        appPrefix_def appCss_def)
  from file_survives_filters_iff [OF s, of "''app.js''" "[appChunk, vendorChunk]"]
    file_survives_filters_iff [OF s, of "''app.css''" "[appChunk, vendorChunk]"]
    file_survives_filters_iff [OF s, of "''vendor.js''" "[appChunk, vendorChunk]"]
  show ?thesis
    by (simp add: filterOptions_def scenarioOptions_def allFiles_def appChunk_def vendorChunk_def
        regExpMatches_def appPrefix_def appCss_def)
qed

text \<open>
  C2, as the claim states it, does not hold. The whitelist holds the one pattern
  \<^verbatim>\<open>/^app/g\<close> and there is no blacklist; the chunk has the files \<^verbatim>\<open>app.js\<close> and
  \<^verbatim>\<open>app.css\<close>. The pattern matches \<^verbatim>\<open>app.css\<close>, but the call of \<^verbatim>\<open>test\<close> on
  \<^verbatim>\<open>app.js\<close> has left \<open>lastIndex\<close> at 3, the search in \<^verbatim>\<open>app.css\<close> starts there and
  fails, and the file is dropped.
\<close>

theorem global_pattern_drops_matching_file:
  "''app.css'' \<in> set (allFiles [appChunk]) \<and>
   fileWhitelist globalOptions = Some [0] \<and>
   regExpMatches (regexps globalOptions 0) ''app.css'' \<and>
   fileBlacklist globalOptions = None \<and>
   filteredFiles globalOptions [appChunk] = [''app.js''] \<and>
   ''app.css'' \<notin> set (filteredFiles globalOptions [appChunk])"
  by (simp add: globalOptions_def scenarioOptions_def appChunk_def allFiles_def uniqueFiles_def
      setAdd_def filteredFiles_def filterStage_def whitelisted_def notBlacklisted_def pattern_defs)

section \<open>The Attribute Resolver\<close>

text \<open>
  C3. Whatever \<^verbatim>\<open>determineAsValue\<close> is, every attribute object that lines 80 to 101
  build has \<^verbatim>\<open>as\<close> and \<^verbatim>\<open>crossorigin\<close> only when \<^verbatim>\<open>rel\<close> is \<^verbatim>\<open>preload\<close>; it has
  \<^verbatim>\<open>crossorigin\<close> exactly when the value of \<^verbatim>\<open>as\<close> is \<^verbatim>\<open>font\<close>, and then with the
  value \<^verbatim>\<open>anonymous\<close>. For any other \<^verbatim>\<open>rel\<close>, \<^verbatim>\<open>prefetch\<close> among them, the object is
  built without fail and has just \<^verbatim>\<open>href\<close> and \<^verbatim>\<open>rel\<close>.
\<close>

theorem link_descriptor_invariant:
  "(rel opts \<noteq> ''preload'' \<longrightarrow>
      linkAttributes lib opts prefix file =
        Inr [(''href'', Some (prefix @ file)), (''rel'', Some (rel opts))]) \<and>
   (linkAttributes lib opts prefix file = Inr attributes \<longrightarrow>
      (hasAttribute ''as'' attributes \<longrightarrow> rel opts = ''preload'') \<and>
      (hasAttribute ''crossorigin'' attributes \<longrightarrow> rel opts = ''preload'') \<and>
      (hasAttribute ''crossorigin'' attributes \<longleftrightarrow> map_of attributes ''as'' = Some (Some ''font'')) \<and>
      (hasAttribute ''crossorigin'' attributes \<longrightarrow>
         map_of attributes ''crossorigin'' = Some (Some ''anonymous'')) \<and>
      (rel opts = ''prefetch'' \<longrightarrow>
         \<not> hasAttribute ''as'' attributes \<and> \<not> hasAttribute ''crossorigin'' attributes))"
  by (auto simp: linkAttributes_def hasAttribute_def split: if_splits sum.splits)

theorem link_descriptor_invariant_witness:
  "linkAttributes specLib scenarioOptions ''/dist/'' ''font.woff2'' =
     Inr [(''href'', Some ''/dist/font.woff2''), (''rel'', Some ''preload''),
          (''as'', Some ''font''), (''crossorigin'', Some ''anonymous'')] \<and>
   hasAttribute ''crossorigin''
     [(''href'', Some ''/dist/font.woff2''), (''rel'', Some ''preload''),
      (''as'', Some ''font''), (''crossorigin'', Some ''anonymous'')] \<and>
   linkAttributes specLib (scenarioOptions\<lparr>rel := ''prefetch''\<rparr>) ''/dist/'' ''font.woff2'' =
     Inr [(''href'', Some ''/dist/font.woff2''), (''rel'', Some ''prefetch'')]"
  using link_descriptor_invariant [of scenarioOptions specLib "''/dist/''" "''font.woff2''"
      "[(''href'', Some ''/dist/font.woff2''), (''rel'', Some ''preload''),
        (''as'', Some ''font''), (''crossorigin'', Some ''anonymous'')]"]
    link_descriptor_invariant [of "scenarioOptions\<lparr>rel := ''prefetch''\<rparr>" specLib "''/dist/''"
      "''font.woff2''" "[]"]
  by (simp add: linkAttributes_def hasAttribute_def scenario_defs)

section \<open>The Head Injector\<close>

text \<open>Lines 110 to 115: the markup of the payload becomes what the injector returns.\<close>

lemma addLinks_inserts_links:
  "hasProperty webpackVersion (doesChunkBelongToHTML lib) \<Longrightarrow>
   filename htmlPluginData \<notin> set (excludeHtmlNames opts) \<Longrightarrow>
   computedLinks lib opts webpackVersion compilation htmlPluginData = Inr links \<Longrightarrow>
   insertLinksIntoHead lib links (html htmlPluginData) = Inr newHtml \<Longrightarrow>
   addLinks lib opts webpackVersion compilation htmlPluginData =
     Inr (htmlPluginData\<lparr>html := newHtml\<rparr>)"
  by (simp add: addLinks_def)

lemma isClosingHeadTag_length: "isClosingHeadTag t \<Longrightarrow> length t = 7"
proof -
  assume "isClosingHeadTag t"
  then have "length (map toLowerCase t) = length ''</head>''"
    unfolding isClosingHeadTag_def by (rule arg_cong)
  then show ?thesis by simp
qed

lemma startsWithClosingHead_iff:
  "startsWithClosingHead s \<longleftrightarrow> (\<exists>t r. s = t @ r \<and> isClosingHeadTag t)"
proof
  assume "startsWithClosingHead s"
  then have "isClosingHeadTag (take 7 s)"
    by (simp add: startsWithClosingHead_def isClosingHeadTag_def)
  moreover have "s = take 7 s @ drop 7 s" by simp
  ultimately show "\<exists>t r. s = t @ r \<and> isClosingHeadTag t" by blast
next
  assume "\<exists>t r. s = t @ r \<and> isClosingHeadTag t"
  then obtain t r where s: "s = t @ r" and t: "isClosingHeadTag t" by blast
  have "length t = 7" by (rule isClosingHeadTag_length [OF t])
  with s have "take 7 s = t" by simp
  with t show "startsWithClosingHead s"
    by (simp add: startsWithClosingHead_def isClosingHeadTag_def)
qed

lemma closingHeadIndex_Some:
  "closingHeadIndex s = Some i \<Longrightarrow>
     i \<le> length s \<and> startsWithClosingHead (drop i s) \<and> (\<forall>j<i. \<not> startsWithClosingHead (drop j s))"
proof (induction s arbitrary: i)
  case Nil
  then show ?case by simp
next
  case (Cons c cs)
  show ?case
  proof (cases "startsWithClosingHead (c # cs)")
    case True
    with Cons.prems show ?thesis by simp
  next
    case False
    with Cons.prems obtain k where k: "closingHeadIndex cs = Some k" and i: "i = Suc k"
      by auto
    from Cons.IH [OF k] have ih: "k \<le> length cs" "startsWithClosingHead (drop k cs)"
      "\<forall>j<k. \<not> startsWithClosingHead (drop j cs)" by simp_all
    have "\<not> startsWithClosingHead (drop j (c # cs))" if "j < i" for j
    proof (cases j)
      case 0
      with False show ?thesis by simp
    next
      case (Suc j')
      with that i ih(3) show ?thesis by simp
    qed
    with ih i show ?thesis by simp
  qed
qed

lemma closingHeadIndex_None:
  "closingHeadIndex s = None \<Longrightarrow> \<not> startsWithClosingHead (drop j s)"
proof (induction s arbitrary: j)
  case Nil
  then show ?case by (simp add: startsWithClosingHead_def)
next
  case (Cons c cs)
  from Cons.prems have n: "\<not> startsWithClosingHead (c # cs)" and r: "closingHeadIndex cs = None"
    by (auto split: if_splits)
  show ?case
  proof (cases j)
    case 0
    with n show ?thesis by simp
  next
    case (Suc j')
    with Cons.IH [OF r] show ?thesis by simp
  qed
qed

lemma closingHeadIndex_first:
  assumes "startsWithClosingHead (drop n s)" and "\<forall>j<n. \<not> startsWithClosingHead (drop j s)"
  shows "closingHeadIndex s = Some n"
proof (cases "closingHeadIndex s")
  case None
  with assms(1) closingHeadIndex_None show ?thesis by blast
next
  case (Some i)
  from closingHeadIndex_Some [OF Some]
  have i: "startsWithClosingHead (drop i s)" "\<forall>j<i. \<not> startsWithClosingHead (drop j s)" by simp_all
  have "\<not> i < n" using assms(2) i(1) by blast
  moreover have "\<not> n < i" using assms(1) i(2) by blast
  ultimately show ?thesis using Some by simp
qed

lemma decomposition_at:
  assumes "s = b @ t @ r" and "isClosingHeadTag t"
  shows "startsWithClosingHead (drop (length b) s)"
proof -
  from assms(1) have "drop (length b) s = t @ r" by simp
  with assms(2) show ?thesis unfolding startsWithClosingHead_iff by blast
qed

lemma no_earlier_tag:
  assumes "\<forall>b t r. s = b @ t @ r \<and> isClosingHeadTag t \<longrightarrow> n \<le> length b"
  shows "\<forall>j<n. \<not> startsWithClosingHead (drop j s)"
proof (intro allI impI notI)
  fix j assume j: "j < n" and st: "startsWithClosingHead (drop j s)"
  from st obtain t r where d: "drop j s = t @ r" and t: "isClosingHeadTag t"
    unfolding startsWithClosingHead_iff by blast
  from isClosingHeadTag_length [OF t] have "length t \<noteq> 0" by simp
  then have "t \<noteq> []" by simp
  with d have "drop j s \<noteq> []" by simp
  then have "j \<le> length s" by simp
  then have len: "length (take j s) = j" by simp
  have "take j s @ drop j s = s" by (rule append_take_drop_id)
  with d have "s = take j s @ t @ r" by simp
  with t assms have "n \<le> length (take j s)" by blast
  with len j show False by simp
qed

lemma first_tag_from_index:
  assumes "closingHeadIndex s = Some n" and "s = b @ t @ r" and "isClosingHeadTag t"
  shows "n \<le> length b"
proof -
  from closingHeadIndex_Some [OF assms(1)]
  have "\<forall>j<n. \<not> startsWithClosingHead (drop j s)" by simp
  moreover from assms(2,3) have "startsWithClosingHead (drop (length b) s)"
    by (rule decomposition_at)
  ultimately have "\<not> length b < n" by blast
  then show ?thesis by simp
qed

lemma no_tag_from_index:
  assumes "closingHeadIndex s = None" and "s = b @ t @ r"
  shows "\<not> isClosingHeadTag t"
proof
  assume "isClosingHeadTag t"
  with assms(2) have "startsWithClosingHead (drop (length b) s)"
    by (rule decomposition_at)
  with closingHeadIndex_None [OF assms(1)] show False by blast
qed

text \<open>
  C4. When the markup is \<open>before @ tag @ rest\<close>, \<open>tag\<close> is a closing head tag in any case
  of letters and no closing head tag starts further left, the Head Injector returns the
  markup with the tags, one after the other, between \<open>before\<close> and \<open>tag\<close>, and all
  else as it was. When the markup holds no closing head tag, it is returned as it is,
  and not as an error.
\<close>

theorem insert_before_first_closing_head:
  "(html' = before @ tag @ rest \<and> isClosingHeadTag tag \<and>
      (\<forall>b t r. html' = b @ t @ r \<and> isClosingHeadTag t \<longrightarrow> length before \<le> length b)
     \<longrightarrow> insertLinksIntoHead_spec links html' = Inr (before @ concat links @ tag @ rest)) \<and>
   ((\<forall>b t r. html' = b @ t @ r \<longrightarrow> \<not> isClosingHeadTag t)
     \<longrightarrow> insertLinksIntoHead_spec links html' = Inr html')"
proof (intro conjI impI)
  assume a: "html' = before @ tag @ rest \<and> isClosingHeadTag tag \<and>
      (\<forall>b t r. html' = b @ t @ r \<and> isClosingHeadTag t \<longrightarrow> length before \<le> length b)"
  then have "startsWithClosingHead (drop (length before) html')"
    using decomposition_at by blast
  moreover from a have "\<forall>j<length before. \<not> startsWithClosingHead (drop j html')"
    using no_earlier_tag by blast
  ultimately have "closingHeadIndex html' = Some (length before)"
    by (rule closingHeadIndex_first)
  with a show "insertLinksIntoHead_spec links html' = Inr (before @ concat links @ tag @ rest)"
    by (simp add: insertLinksIntoHead_spec_def)
next
  assume n: "\<forall>b t r. html' = b @ t @ r \<longrightarrow> \<not> isClosingHeadTag t"
  have "closingHeadIndex html' = None"
  proof (cases "closingHeadIndex html'")
    case None
    then show ?thesis .
  next
    case (Some i)
    from closingHeadIndex_Some [OF Some] have "startsWithClosingHead (drop i html')" by simp
    then obtain t r where "drop i html' = t @ r" "isClosingHeadTag t"
      using startsWithClosingHead_iff by blast
    moreover have "take i html' @ drop i html' = html'" by (rule append_take_drop_id)
    ultimately have "html' = take i html' @ t @ r \<and> isClosingHeadTag t"
      by simp
    with n show ?thesis by blast
  qed
  then show "insertLinksIntoHead_spec links html' = Inr html'"
    by (simp add: insertLinksIntoHead_spec_def)
qed

theorem insert_before_first_closing_head_witness:
  "insertLinksIntoHead_spec [''<a>'', ''<b>''] ''<head></HEAD><body></head>'' =
     Inr ''<head><a><b></HEAD><body></head>'' \<and>
   insertLinksIntoHead_spec [''<a>'', ''<b>''] ''<body></body>'' = Inr ''<body></body>''"
proof -
  have tag: "isClosingHeadTag ''</HEAD>''"
    by (simp add: isClosingHeadTag_def toLowerCase_def)
  have split: "''<head></HEAD><body></head>'' = ''<head>'' @ ''</HEAD>'' @ ''<body></head>''"
    by simp
  have index: "closingHeadIndex ''<head></HEAD><body></head>'' = Some (length ''<head>'')"
    by (simp add: startsWithClosingHead_def toLowerCase_def)
  have first: "\<forall>b t r. ''<head></HEAD><body></head>'' = b @ t @ r \<and> isClosingHeadTag t
      \<longrightarrow> length ''<head>'' \<le> length b"
    using first_tag_from_index [OF index] by blast
  have "closingHeadIndex ''<body></body>'' = None"
    by (simp add: startsWithClosingHead_def toLowerCase_def)
  then have none: "\<forall>b t r. ''<body></body>'' = b @ t @ r \<longrightarrow> \<not> isClosingHeadTag t"
    using no_tag_from_index by blast
  from insert_before_first_closing_head [of "''<head></HEAD><body></head>''" "''<head>''" "''</HEAD>''"
      "''<body></head>''" "[''<a>'', ''<b>'']"] split tag first
  have 1: "insertLinksIntoHead_spec [''<a>'', ''<b>''] ''<head></HEAD><body></head>'' =
     Inr (''<head>'' @ concat [''<a>'', ''<b>''] @ ''</HEAD>'' @ ''<body></head>'')"
    by blast
  from insert_before_first_closing_head [of "''<body></body>''" "[]" "[]" "[]" "[''<a>'', ''<b>'']"] none
  have 2: "insertLinksIntoHead_spec [''<a>'', ''<b>''] ''<body></body>'' = Inr ''<body></body>''"
    by blast
  from 1 2 show ?thesis by simp
qed

section \<open>The version check of \<^verbatim>\<open>addLinks\<close>\<close>

lemma invalid_version_rejected:
  "\<not> hasProperty webpackVersion (doesChunkBelongToHTML lib) \<Longrightarrow>
     addLinks lib opts webpackVersion compilation htmlPluginData =
       Inl (AssertionError (invalidVersionMessage lib))"
  by (simp add: addLinks_def)

lemma supported_version_accepted:
  "webpackVersion \<in> set (objectKeys (doesChunkBelongToHTML lib)) \<Longrightarrow>
     hasProperty webpackVersion (doesChunkBelongToHTML lib)"
  by (simp add: hasProperty_def)

lemma unknown_version_rejected:
  "webpackVersion \<notin> set (objectKeys (doesChunkBelongToHTML lib)) \<Longrightarrow>
   webpackVersion \<notin> set (objectKeys objectPrototype) \<Longrightarrow>
     addLinks lib opts webpackVersion compilation htmlPluginData =
       Inl (AssertionError (invalidVersionMessage lib))"
  by (simp add: addLinks_def hasProperty_def)

lemma invalid_version_message_spec:
  "invalidVersionMessage specLib =
     ''An invalid webpackVersion was supplied. Supported values: v3,v4.''"
  by (simp add: invalidVersionMessage_def objectKeys_def specLib_def doesChunkBelongToHTML_spec_def)

lemma inherited_name_has_property:
  "hasProperty ''toString'' object \<and> hasProperty ''constructor'' object \<and>
   hasProperty ''__proto__'' object"
  by (simp add: hasProperty_def objectKeys_def objectPrototype_def)

text \<open>
  C5. The check of line 33 is \<^verbatim>\<open>webpackVersion in doesChunkBelongToHTML\<close>, and \<^verbatim>\<open>in\<close>
  holds for the names that the table inherits from \<^verbatim>\<open>Object.prototype\<close> too. The
  identifier \<^verbatim>\<open>toString\<close> is not among the keys that the message lists, yet the check
  passes: \<^verbatim>\<open>addLinks\<close> raises no error, line 52 calls \<^verbatim>\<open>Object.prototype.toString\<close> as
  the variant, whose result is truthy, and the tags of the chunk go into the markup.
  The lemmas above give what does hold: an identifier that is no property of the
  table at all is refused with the message that lists the keys, and a key passes.
\<close>

theorem inherited_name_passes_version_check:
  "''toString'' \<notin> set (objectKeys (doesChunkBelongToHTML specLib)) \<and>
   hasProperty ''toString'' (doesChunkBelongToHTML specLib) \<and>
   addLinks specLib scenarioOptions ''toString'' scenarioCompilation scenarioData =
     Inr (scenarioData\<lparr>html := ''<html><head>'' @ appCssTag @ appJsTag @ ''</head><body></body></html>''\<rparr>)"
  by (simp add: pipeline_defs scenario_defs appCssTag_def appJsTag_def)

section \<open>Excluded documents\<close>

text \<open>
  C6. When the version check of line 33 passes and the file name of the document is in
  \<^verbatim>\<open>excludeHtmlNames\<close>, \<^verbatim>\<open>addLinks\<close> returns the payload it was given, for every
  compilation and whatever the functions of \<^verbatim>\<open>lib/\<close> would do: none of them is
  called. (The specification makes a supported version the precondition of every call.)
\<close>

theorem excluded_document_unchanged:
  "hasProperty webpackVersion (doesChunkBelongToHTML lib) \<Longrightarrow>
   filename htmlPluginData \<in> set (excludeHtmlNames opts) \<Longrightarrow>
   addLinks lib opts webpackVersion compilation htmlPluginData = Inr htmlPluginData"
  by (simp add: addLinks_def)

theorem excluded_document_unchanged_witness:
  "addLinks throwingLib (scenarioOptions\<lparr>excludeHtmlNames := [''about.html'', ''index.html'']\<rparr>) ''v4''
     scenarioCompilation scenarioData = Inr scenarioData \<and>
   addLinks throwingLib scenarioOptions ''v4'' scenarioCompilation scenarioData =
     Inl (Thrown ''extractChunks'')"
proof -
  have v: "hasProperty ''v4'' (doesChunkBelongToHTML throwingLib)"
    by (simp add: hasProperty_def objectKeys_def throwingLib_def doesChunkBelongToHTML_spec_def)
  have f: "filename scenarioData \<in>
      set (excludeHtmlNames (scenarioOptions\<lparr>excludeHtmlNames := [''about.html'', ''index.html'']\<rparr>))"
    by (simp add: scenarioData_def)
  have "addLinks throwingLib scenarioOptions ''v4'' scenarioCompilation scenarioData =
     Inl (Thrown ''extractChunks'')"
    by (simp add: addLinks_def computedLinks_def htmlChunksFor_def hasProperty_def objectKeys_def
        throwingLib_def doesChunkBelongToHTML_spec_def scenarioOptions_def scenarioData_def)
  with excluded_document_unchanged [OF v f] show ?thesis by simp
qed

section \<open>The scenario\<close>

text \<open>
  C7, as amended. In the scenario the files are sorted before the tags are built, and
  \<^verbatim>\<open>app.css\<close> is smaller than \<^verbatim>\<open>app.js\<close>: \<^verbatim>\<open>addLinks\<close> computes exactly two tags,
  the one of \<^verbatim>\<open>app.css\<close> first and the one of \<^verbatim>\<open>app.js\<close> second, with either
  version.
\<close>

theorem scenario_tags_css_before_js:
  "computedLinks specLib scenarioOptions ''v3'' scenarioCompilation scenarioData =
     Inr [appCssTag, appJsTag] \<and>
   computedLinks specLib scenarioOptions ''v4'' scenarioCompilation scenarioData =
     Inr [appCssTag, appJsTag] \<and>
   sortedFilteredFiles scenarioOptions [appChunk] = [''app.css'', ''app.js'']"
  by (simp add: pipeline_defs scenario_defs appCssTag_def appJsTag_def)

text \<open>
  C7, as the claim states it, does not hold: the tags are not computed in the order
  \<^verbatim>\<open>app.js\<close>, \<^verbatim>\<open>app.css\<close>.
\<close>

theorem scenario_tags_not_js_before_css:
  "computedLinks specLib scenarioOptions ''v3'' scenarioCompilation scenarioData \<noteq>
     Inr [appJsTag, appCssTag] \<and>
   computedLinks specLib scenarioOptions ''v4'' scenarioCompilation scenarioData \<noteq>
     Inr [appJsTag, appCssTag]"
  by (simp add: pipeline_defs scenario_defs appCssTag_def appJsTag_def)

section \<open>apply\<close>

lemma ordering_error_reported:
  "hooksInCompiler compiler \<Longrightarrow>
   htmlWebpackPluginAfterHtmlProcessing compilation = None \<Longrightarrow>
   HtmlWebpackPlugin opts = Some getHooksBeforeEmit \<Longrightarrow>
   getHooksBeforeEmit compilation = Inr None \<Longrightarrow>
   compilationCallback opts compiler compilation =
     Inr (compilation\<lparr>errors := errors compilation @ [unableToTapMessage]\<rparr>, None)"
  by (simp add: compilationCallback_def findHook_def)

text \<open>
  C8. With a compiler that has hooks, a compilation without the hook
  \<^verbatim>\<open>htmlWebpackPluginAfterHtmlProcessing\<close> and no option \<^verbatim>\<open>HtmlWebpackPlugin\<close>, neither
  hook is found, and line 141 throws a \<^verbatim>\<open>TypeError\<close> out of the callback: line 150 is
  not reached and nothing is added to \<^verbatim>\<open>compilation.errors\<close>. The lemma above gives
  what does hold: when the option is set and its \<^verbatim>\<open>getHooks\<close> gives no \<^verbatim>\<open>beforeEmit\<close>,
  the message is added to \<^verbatim>\<open>compilation.errors\<close> and nothing is tapped.
\<close>

theorem missing_option_throws_type_error:
  "htmlWebpackPluginAfterHtmlProcessing scenarioCompilation = None \<and>
   HtmlWebpackPlugin scenarioOptions = None \<and>
   compilationCallback scenarioOptions \<lparr>hooksInCompiler = True\<rparr> scenarioCompilation = Inl TypeError"
  by (simp add: compilationCallback_def findHook_def scenarioOptions_def scenarioCompilation_def)

text \<open>
  C9. For either kind of compiler: when \<^verbatim>\<open>addLinks\<close> throws, the callback registered
  for the document calls \<^verbatim>\<open>callback(error)\<close> with that error, once, and does nothing
  else. No exception leaves it but one that \<^verbatim>\<open>callback\<close> itself throws.
\<close>

theorem pipeline_error_goes_to_callback:
  "addLinks lib opts (versionFor compiler) compilation htmlPluginData = Inl error \<Longrightarrow>
   htmlPluginDataCallback lib opts compiler compilation htmlPluginData callback s =
     callback (Failure error) s"
  by (simp add: htmlPluginDataCallback_def)

theorem pipeline_error_goes_to_callback_witness:
  "addLinks specLib scenarioOptions ''v4'' scenarioCompilation (scenarioData\<lparr>assetsChunks := None\<rparr>) =
     Inl TypeError \<and>
   htmlPluginDataCallback specLib scenarioOptions \<lparr>hooksInCompiler = True\<rparr> scenarioCompilation
     (scenarioData\<lparr>assetsChunks := None\<rparr>) recordingCallback [] = (None, [Failure TypeError])"
proof -
  have e: "addLinks specLib scenarioOptions (versionFor \<lparr>hooksInCompiler = True\<rparr>) scenarioCompilation
      (scenarioData\<lparr>assetsChunks := None\<rparr>) = Inl TypeError"
    by (simp add: versionFor_def pipeline_defs scenario_defs)
  from pipeline_error_goes_to_callback [OF e, of recordingCallback "[]"] e
  show ?thesis by (simp add: recordingCallback_def versionFor_def)
qed

section \<open>The public path\<close>

text \<open>
  C10. When the public path of the compilation is undefined or the empty string, the
  prefix is the empty string and \<^verbatim>\<open>href\<close> is the file path itself, in every attribute
  object that is built; for a \<^verbatim>\<open>rel\<close> other than \<^verbatim>\<open>preload\<close> the object is built
  without fail.
\<close>

theorem absent_public_path_gives_bare_href:
  "publicPath compilation = None \<or> publicPath compilation = Some [] \<Longrightarrow>
   publicPathPrefix compilation = [] \<and>
   (rel opts \<noteq> ''preload'' \<longrightarrow>
      linkAttributes lib opts (publicPathPrefix compilation) file =
        Inr [(''href'', Some file), (''rel'', Some (rel opts))]) \<and>
   (linkAttributes lib opts (publicPathPrefix compilation) file = Inr attributes \<longrightarrow>
      map_of attributes ''href'' = Some (Some file))"
  by (auto simp: publicPathPrefix_def linkAttributes_def split: if_splits sum.splits)

theorem absent_public_path_gives_bare_href_witness:
  "publicPathPrefix (scenarioCompilation\<lparr>publicPath := None\<rparr>) = [] \<and>
   linkAttributes specLib scenarioOptions (publicPathPrefix (scenarioCompilation\<lparr>publicPath := None\<rparr>))
     ''app.js'' = Inr [(''href'', Some ''app.js''), (''rel'', Some ''preload''), (''as'', Some ''script'')] \<and>
   computedLinks specLib scenarioOptions ''v4'' (scenarioCompilation\<lparr>publicPath := None\<rparr>) scenarioData =
     Inr [''<link href='' @ quoted ''app.css'' @ '' rel='' @ quoted ''preload'' @ '' as='' @ quoted ''style'' @ ''>'',
          ''<link href='' @ quoted ''app.js'' @ '' rel='' @ quoted ''preload'' @ '' as='' @ quoted ''script'' @ ''>'']"
proof -
  have p: "publicPath (scenarioCompilation\<lparr>publicPath := None\<rparr>) = None \<or>
      publicPath (scenarioCompilation\<lparr>publicPath := None\<rparr>) = Some []"
    by simp
  have "linkAttributes specLib scenarioOptions [] ''app.js'' =
      Inr [(''href'', Some ''app.js''), (''rel'', Some ''preload''), (''as'', Some ''script'')]"
    by (simp add: linkAttributes_def scenario_defs)
  moreover have "computedLinks specLib scenarioOptions ''v4'' (scenarioCompilation\<lparr>publicPath := None\<rparr>) scenarioData =
     Inr [''<link href='' @ quoted ''app.css'' @ '' rel='' @ quoted ''preload'' @ '' as='' @ quoted ''style'' @ ''>'',
          ''<link href='' @ quoted ''app.js'' @ '' rel='' @ quoted ''preload'' @ '' as='' @ quoted ''script'' @ ''>'']"
    by (simp add: pipeline_defs scenario_defs)
  ultimately show ?thesis
    using absent_public_path_gives_bare_href [OF p, of scenarioOptions specLib "''app.js''"
      "[(''href'', Some ''app.js''), (''rel'', Some ''preload''), (''as'', Some ''script'')]"]
    by simp
qed

end
